theory Spec2Isabelle
  imports Complex_Main "HOL-Library.Sublist"
begin

section \<open>JournalScraper: a shallow embedding\<close>

text \<open>
  The class \<open>JournalScraper\<close> fetches two pages of a journal through a proxy service,
  reads a record of bibliometric fields off the markup and stores it once per title.
  JavaScript strings are modelled as \<open>string\<close> (ASCII text), numbers that count things
  as \<open>nat\<close>, and numbers read off a page by the exact decimal value of the literal
  (the rounding to a double is not represented).
\<close>

subsection \<open>Strings\<close>

text \<open>\<open>String.prototype.includes\<close>: does the pattern occur somewhere in the text.\<close>

fun str_includes :: "string \<Rightarrow> string \<Rightarrow> bool" where
  "str_includes [] pat = (pat = [])"
| "str_includes (c # cs) pat = (prefix pat (c # cs) \<or> str_includes cs pat)"

text \<open>
  \<open>String.prototype.replace\<close> with a string pattern: only the first occurrence of the
  pattern is replaced.
\<close>

fun replace :: "string \<Rightarrow> string \<Rightarrow> string \<Rightarrow> string" where
  "replace [] pat rep = (if pat = [] then rep else [])"
| "replace (c # cs) pat rep =
     (if prefix pat (c # cs) then rep @ drop (length pat) (c # cs)
      else c # replace cs pat rep)"

text \<open>White space as \<open>trim\<close> and \<open>parseFloat\<close> skip it (the ASCII part of it).\<close>

definition is_space :: "char \<Rightarrow> bool" where
  "is_space c = (c \<in> set [CHR '' '', CHR 0x09, CHR 0x0A, CHR 0x0B, CHR 0x0C, CHR 0x0D])"

definition trim :: "string \<Rightarrow> string" where
  "trim s = rev (dropWhile is_space (rev (dropWhile is_space s)))"

subsection \<open>The journal title of a shop URL\<close>

text \<open>
  \<open>shopUrl.match(/journals\/([^\/]+)/)\<close>: the regular expression has no flag, so the
  search tries each start position from the left. At one position the literal
  \<open>journals/\<close> must stand, followed by the longest run of characters other than \<open>/\<close>,
  which must not be empty; that run is group 1.
\<close>

definition match_here :: "string \<Rightarrow> string option" where
  "match_here s =
     (if prefix ''journals/'' s
      then (let g = takeWhile (\<lambda>c. c \<noteq> CHR ''/'') (drop 9 s)
            in if g = [] then None else Some g)
      else None)"

fun regex_match :: "string \<Rightarrow> string option" where
  "regex_match [] = match_here []"
| "regex_match (c # cs) =
     (case match_here (c # cs) of
        Some g \<Rightarrow> Some g
      | None \<Rightarrow> regex_match cs)"

definition extractJournalTitleFromUrl :: "string \<Rightarrow> string option" where
  "extractJournalTitleFromUrl shopUrl =
     (case regex_match shopUrl of Some g \<Rightarrow> Some g | None \<Rightarrow> None)"

text \<open>
  The search as the specification words it: position \<open>p\<close> of the text is an
  occurrence of \<open>journals/\<close> that is followed by a character other than \<open>/\<close>, and
  the title after it is the longest run of characters other than \<open>/\<close> from there.
\<close>

definition occurrence :: "string \<Rightarrow> nat \<Rightarrow> bool" where
  "occurrence s p =
     (take 9 (drop p s) = ''journals/'' \<and> p + 9 < length s \<and> s ! (p + 9) \<noteq> CHR ''/'')"

definition title_after :: "string \<Rightarrow> nat \<Rightarrow> string" where
  "title_after s p = takeWhile (\<lambda>c. c \<noteq> CHR ''/'') (drop (p + 9) s)"

definition buildScienceDirectUrl :: "string \<Rightarrow> string \<Rightarrow> string" where
  "buildScienceDirectUrl journalTitle endpoint =
     ''https://www.sciencedirect.com/journal/'' @ journalTitle @ ''/'' @ endpoint"

subsection \<open>Values\<close>

text \<open>
  A JavaScript number is NaN, an infinity (\<open>True\<close> for the negative one) or a finite
  value. The fields of a record hold \<open>null\<close>, \<open>undefined\<close>, a number or a string.
\<close>

datatype number = NaN | Infinity bool | Finite rat

datatype jsval = Null | Undefined | Num number | Str string

datatype error = MissingTitle | TypeError | StoreError

subsection \<open>parseFloat\<close>

text \<open>
  \<open>parseFloat\<close> skips leading white space and reads the longest prefix that is a
  decimal literal: an optional sign, then \<open>Infinity\<close>, or digits with an optional
  fraction and an optional exponent. It yields NaN when there is no such prefix.
\<close>

definition is_digit :: "char \<Rightarrow> bool" where
  "is_digit c = (c \<in> set ''0123456789'')"

definition digit_val :: "char \<Rightarrow> nat" where
  "digit_val c = of_char c - 48"

definition decimal :: "string \<Rightarrow> nat" where
  "decimal ds = foldl (\<lambda>a c. 10 * a + digit_val c) 0 ds"

text \<open>
  The exponent part: \<open>e\<close> or \<open>E\<close>, an optional sign and at least one digit. Without a
  digit there is no exponent part, and the literal ends before the \<open>e\<close>.
\<close>

definition exponent_part :: "string \<Rightarrow> int" where
  "exponent_part s =
     (case s of
        [] \<Rightarrow> 0
      | c # r \<Rightarrow>
          if c = CHR ''e'' \<or> c = CHR ''E'' then
            (case r of
               [] \<Rightarrow> 0
             | d # r' \<Rightarrow>
                 if d = CHR ''-'' then - int (decimal (takeWhile is_digit r'))
                 else if d = CHR ''+'' then int (decimal (takeWhile is_digit r'))
                 else int (decimal (takeWhile is_digit r)))
          else 0)"

definition scale :: "nat \<Rightarrow> int \<Rightarrow> rat" where
  "scale m e = (if 0 \<le> e then of_nat m * 10 ^ nat e else of_nat m / 10 ^ nat (- e))"

definition unsigned_literal :: "bool \<Rightarrow> string \<Rightarrow> number" where
  "unsigned_literal neg s =
     (if prefix ''Infinity'' s then Infinity neg
      else
        (let ip = takeWhile is_digit s;
             r1 = dropWhile is_digit s;
             fp = (case r1 of
                     [] \<Rightarrow> []
                   | c # r \<Rightarrow> if c = CHR ''.'' then takeWhile is_digit r else []);
             r2 = (case r1 of
                     [] \<Rightarrow> []
                   | c # r \<Rightarrow> if c = CHR ''.'' then dropWhile is_digit r else r1)
         in if ip = [] \<and> fp = [] then NaN
            else (let v = scale (decimal (ip @ fp)) (exponent_part r2 - int (length fp))
                  in Finite (if neg then - v else v))))"

definition parseFloat_str :: "string \<Rightarrow> number" where
  "parseFloat_str s =
     (case dropWhile is_space s of
        [] \<Rightarrow> NaN
      | c # r \<Rightarrow>
          if c = CHR ''-'' then unsigned_literal True r
          else if c = CHR ''+'' then unsigned_literal False r
          else unsigned_literal False (c # r))"

text \<open>
  The argument of \<open>parseFloat\<close> is converted to a string first: \<open>undefined\<close> (here
  \<open>None\<close>) becomes the text \<open>undefined\<close>.
\<close>

definition parseFloat :: "string option \<Rightarrow> number" where
  "parseFloat v = (case v of None \<Rightarrow> parseFloat_str ''undefined'' | Some s \<Rightarrow> parseFloat_str s)"

subsection \<open>The document tree and its selectors\<close>

text \<open>
  A node is a text node or an element with its tag name, its class list and its
  children. The document is given by its root element.
\<close>

datatype node = Text string | Element string "string list" "node list"

fun textContent :: "node \<Rightarrow> string" where
  "textContent (Text t) = t"
| "textContent (Element tg cls kids) = concat (map textContent kids)"

text \<open>
  A compound selector is an optional tag name and a list of classes (\<open>h3\<close>,
  \<open>.text-xl\<close>, \<open>.row.gutters\<close>); a selector is a list of compounds joined by the
  descendant combinator, the subject last.
\<close>

datatype compound = Compound "string option" "string list"

definition tag :: "string \<Rightarrow> compound" where
  "tag n = Compound (Some n) []"

definition classes :: "string list \<Rightarrow> compound" where
  "classes cs = Compound None cs"

fun matches :: "compound \<Rightarrow> node \<Rightarrow> bool" where
  "matches sel (Text t) = False"
| "matches (Compound tg cls) (Element n cs kids) =
     ((case tg of None \<Rightarrow> True | Some m \<Rightarrow> m = n) \<and> list_all (\<lambda>c. c \<in> set cs) cls)"

text \<open>
  The elements of a subtree in document order, each with its ancestors (the nearest
  first).
\<close>

fun elements :: "node list \<Rightarrow> node \<Rightarrow> (node list \<times> node) list" where
  "elements ancs (Text t) = []"
| "elements ancs (Element tg cls kids) =
     (ancs, Element tg cls kids) # concat (map (elements (Element tg cls kids # ancs)) kids)"

fun chain :: "compound list \<Rightarrow> node list \<Rightarrow> bool" where
  "chain [] ancs = True"
| "chain (c # cs) [] = False"
| "chain (c # cs) (a # ancs) = ((matches c a \<and> chain cs ancs) \<or> chain (c # cs) ancs)"

definition selects :: "compound list \<Rightarrow> node list \<times> node \<Rightarrow> bool" where
  "selects sel x =
     (case rev sel of [] \<Rightarrow> False | c # cs \<Rightarrow> matches c (snd x) \<and> chain cs (fst x))"

text \<open>\<open>document.querySelectorAll\<close> and \<open>document.querySelector\<close>.\<close>

definition querySelectorAll :: "compound list \<Rightarrow> node \<Rightarrow> node list" where
  "querySelectorAll sel document = map snd (filter (selects sel) (elements [] document))"

definition querySelector :: "compound list \<Rightarrow> node \<Rightarrow> node option" where
  "querySelector sel document =
     (case querySelectorAll sel document of [] \<Rightarrow> None | e # es \<Rightarrow> Some e)"

text \<open>
  \<open>element.querySelector\<close> with a compound selector: the first proper descendant of
  the element that matches (the element's own ancestors play no part).
\<close>

definition element_querySelector :: "compound \<Rightarrow> node \<Rightarrow> node option" where
  "element_querySelector sel e = find (matches sel) (map snd (tl (elements [] e)))"

text \<open>\<open>Array.prototype.join\<close>.\<close>

fun join :: "string list \<Rightarrow> string \<Rightarrow> string" where
  "join [] sep = []"
| "join [x] sep = x"
| "join (x # y # ys) sep = x @ sep @ join (y # ys) sep"

subsection \<open>parseInsightsPage\<close>

record insights =
  issn :: jsval
  subject_areas :: jsval
  cite_score :: jsval
  apc :: jsval
  time_to_first_decision :: jsval
  review_time :: jsval
  submission_to_acceptance :: jsval
  acceptance_to_publication :: jsval
  impact_factor :: jsval
  acceptance_rate :: jsval
  abstracting_indexing :: jsval

text \<open>
  The helper \<open>getMetricValue\<close>: the first \<open>.metric-box\<close> whose text includes the
  label. Without one the value is \<open>null\<close>. With one, \<open>.text-xl\<close> is looked up inside
  it and its \<open>textContent\<close> is read with no check: when the box has no such
  descendant, reading a property of \<open>null\<close> throws a TypeError.
\<close>

definition getMetricValue :: "node \<Rightarrow> string \<Rightarrow> error + jsval" where
  "getMetricValue document label =
     (case find (\<lambda>box. str_includes (textContent box) label)
             (querySelectorAll [classes [''metric-box'']] document) of
        None \<Rightarrow> Inr Null
      | Some metricBox \<Rightarrow>
          (case element_querySelector (classes [''text-xl'']) metricBox of
             None \<Rightarrow> Inl TypeError
           | Some e \<Rightarrow> Inr (Num (parseFloat_str (textContent e)))))"

text \<open>
  The subject areas: the first row section whose first \<open>h3\<close> has the trimmed text
  \<open>Subject areas\<close>; the value is the trimmed text of the value cell inside that row
  (\<open>undefined\<close> when the row has no such cell), and \<open>N/A\<close> when there is no such row.
\<close>

definition subjectAreasDiv :: "node \<Rightarrow> node option" where
  "subjectAreasDiv document =
     find (\<lambda>rowDiv.
             (case element_querySelector (tag ''h3'') rowDiv of
                None \<Rightarrow> False
              | Some h \<Rightarrow> trim (textContent h) = ''Subject areas''))
       (querySelectorAll [classes [''row'', ''gutters'', ''hor-line'', ''u-padding-l-ver'']]
          document)"

definition subject_areas_of :: "node \<Rightarrow> jsval" where
  "subject_areas_of document =
     (case subjectAreasDiv document of
        Some rowDiv \<Rightarrow>
          (case element_querySelector (classes [''col-lg-17'', ''col-xs-24'', ''text-s'']) rowDiv of
             None \<Rightarrow> Undefined
           | Some cell \<Rightarrow> Str (trim (textContent cell)))
      | None \<Rightarrow> Str ''N/A'')"

definition issn_of :: "node \<Rightarrow> jsval" where
  "issn_of document =
     (case querySelector [classes [''col-lg-17'', ''col-xs-24''], classes [''u-display-inline'']]
             document of
        None \<Rightarrow> Undefined
      | Some e \<Rightarrow> Str (trim (textContent e)))"

text \<open>
  The article processing charge: the optional chain yields \<open>undefined\<close> when the
  price element is absent, else its text with the first \<open>$\<close> and the first \<open>,\<close>
  removed; \<open>parseFloat\<close> reads the result.
\<close>

definition apc_of :: "node \<Rightarrow> jsval" where
  "apc_of document =
     Num (parseFloat
       (case querySelector [classes [''list-price-without-waiver''], classes [''text-xl'']]
               document of
          None \<Rightarrow> None
        | Some e \<Rightarrow> Some (replace (replace (textContent e) ''$'' '''') '','' '''')))"

definition abstracting_indexing_of :: "node \<Rightarrow> jsval" where
  "abstracting_indexing_of document =
     Str (join (map (\<lambda>li. trim (textContent li))
                  (querySelectorAll [classes [''abstracts-and-indexing''], tag ''li''] document))
            '', '')"

text \<open>An exception leaves the function at once: the rest is not evaluated.\<close>

definition bind :: "error + 'a \<Rightarrow> ('a \<Rightarrow> error + 'b) \<Rightarrow> error + 'b" where
  "bind m f = (case m of Inl e \<Rightarrow> Inl e | Inr x \<Rightarrow> f x)"

definition parseInsightsPage :: "node \<Rightarrow> error + insights" where
  "parseInsightsPage document =
     (let subject = subject_areas_of document;
          issn_v = issn_of document
      in bind (getMetricValue document ''CiteScore'') (\<lambda>cite.
         let apc_v = apc_of document
         in bind (getMetricValue document ''Time to first decision'') (\<lambda>first_decision.
            bind (getMetricValue document ''Review time'') (\<lambda>review.
            bind (getMetricValue document ''Submission to acceptance'') (\<lambda>submission.
            bind (getMetricValue document ''Acceptance to publication'') (\<lambda>publication.
            bind (getMetricValue document ''Impact Factor'') (\<lambda>impact.
            bind (getMetricValue document ''Acceptance Rate'') (\<lambda>rate.
            Inr \<lparr>issn = issn_v,
                 subject_areas = subject,
                 cite_score = cite,
                 apc = apc_v,
                 time_to_first_decision = first_decision,
                 review_time = review,
                 submission_to_acceptance = submission,
                 acceptance_to_publication = publication,
                 impact_factor = impact,
                 acceptance_rate = rate,
                 abstracting_indexing = abstracting_indexing_of document\<rparr>))))))))"

subsection \<open>The scraper and the network\<close>

text \<open>
  The journal record that \<open>scrapeJournalData\<close> assembles: the fields of the insights
  page are spread into it (their names carry the prefix \<open>j_\<close> here, since a field
  name belongs to one record type). A row of the table \<open>journal_details\<close> is the
  generated id and the values bound to the INSERT.
\<close>

record journal =
  journal_title :: string
  aims_and_scope :: jsval
  j_issn :: jsval
  j_subject_areas :: jsval
  j_cite_score :: jsval
  j_apc :: jsval
  j_time_to_first_decision :: jsval
  j_review_time :: jsval
  j_submission_to_acceptance :: jsval
  j_acceptance_to_publication :: jsval
  j_impact_factor :: jsval
  j_acceptance_rate :: jsval
  j_abstracting_indexing :: jsval
  shop_url :: string
  sciencedirect_url :: string

record row =
  row_id :: nat
  row_data :: journal

text \<open>
  The store: the rows in table order, the AUTOINCREMENT sequence, and the number of
  statements the driver has run so far.
\<close>

record store =
  rows :: "row list"
  seq :: nat
  statements :: nat

text \<open>
  What \<open>axios.get\<close> meets: a response with a status and a body, or no response at
  all. What the run leaves behind: the requests (with the key they carried) and the
  delays, in order.
\<close>

datatype http_result = Response nat string | NoResponse

datatype event = Request "string option" string | Sleep nat

text \<open>
  The scraper object (\<open>apiKeys\<close>, \<open>currentApiKeyIndex\<close>, \<open>db\<close>) together with the
  count of requests sent and the trace of events. The constructor splits the
  environment variable at the commas, which never yields an empty list of keys.
\<close>

record scraper =
  apiKeys :: "string list"
  currentApiKeyIndex :: nat
  db :: store
  requests :: nat
  trace :: "event list"

text \<open>
  The network: the result of the n-th request, given the key and the target URL it
  carries. The driver: whether its n-th statement fails.
\<close>

type_synonym network = "nat \<Rightarrow> string option \<Rightarrow> string \<Rightarrow> http_result"

type_synonym driver = "nat \<Rightarrow> bool"

record response =
  ok :: bool
  text_of :: string

definition failed_response :: response where
  "failed_response = \<lparr>ok = False, text_of = []\<rparr>"

text \<open>Reading an array out of range yields \<open>undefined\<close> (here \<open>None\<close>).\<close>

definition getApiKey :: "scraper \<Rightarrow> string option" where
  "getApiKey st =
     (if currentApiKeyIndex st < length (apiKeys st)
      then Some (apiKeys st ! currentApiKeyIndex st) else None)"

definition switchApiKey :: "scraper \<Rightarrow> scraper" where
  "switchApiKey st =
     st\<lparr>currentApiKeyIndex := (currentApiKeyIndex st + 1) mod length (apiKeys st)\<rparr>"

definition sleep :: "nat \<Rightarrow> scraper \<Rightarrow> scraper" where
  "sleep ms st = st\<lparr>trace := trace st @ [Sleep ms]\<rparr>"

definition sent :: "string \<Rightarrow> scraper \<Rightarrow> scraper" where
  "sent url st =
     st\<lparr>requests := Suc (requests st), trace := trace st @ [Request (getApiKey st) url]\<rparr>"

text \<open>
  One pass through the body of the loop of \<open>fetchWithRetry\<close>, at loop index \<open>i\<close>:
  it returns a response or goes on to the next pass. \<open>axios.get\<close> resolves on a
  status from 200 to 299 and rejects on every other one.
\<close>

datatype outcome = Return response | Continue

definition attempt :: "network \<Rightarrow> string \<Rightarrow> nat \<Rightarrow> nat \<Rightarrow> scraper \<Rightarrow> outcome \<times> scraper" where
  "attempt net url retries i st =
     (case net (requests st) (getApiKey st) url of
        Response status body \<Rightarrow>
          if 200 \<le> status \<and> status < 300
          then (Return \<lparr>ok = True, text_of = body\<rparr>, sent url st)
          else if status = 401 then (Continue, switchApiKey (sent url st))
          else if status = 403 then (Continue, switchApiKey (sent url st))
          else if status = 429 then (Continue, sleep (1000 * 2 ^ i) (sent url st))
          else if status = 500 then (Continue, sleep (1000 * 2 ^ i) (sent url st))
          else if i = retries - 1 then (Return failed_response, sent url st)
          else (Continue, sent url st)
      | NoResponse \<Rightarrow> (Continue, sleep (1000 * 2 ^ i) (sent url st)))"

function fetch_loop :: "network \<Rightarrow> string \<Rightarrow> nat \<Rightarrow> nat \<Rightarrow> scraper \<Rightarrow> response \<times> scraper" where
  "fetch_loop net url retries i st =
     (if i < retries
      then (case attempt net url retries i st of
              (Return r, st') \<Rightarrow> (r, st')
            | (Continue, st') \<Rightarrow> fetch_loop net url retries (Suc i) st')
      else (failed_response, st))"
  by pat_completeness auto
termination
  by (relation "measure (\<lambda>(net, url, retries, i, st). retries - i)") auto

declare fetch_loop.simps [simp del]

definition fetchWithRetry :: "network \<Rightarrow> string \<Rightarrow> nat \<Rightarrow> scraper \<Rightarrow> response \<times> scraper" where
  "fetchWithRetry net url retries st = fetch_loop net url retries 0 st"



subsection \<open>The store\<close>

text \<open>
  \<open>db.get\<close> with \<open>SELECT id FROM journal_details WHERE journal_title = ?\<close>: the first
  row with that title; a \<open>null\<close> parameter (here \<open>None\<close>) equals no title. \<open>db.run\<close>
  with the INSERT: the new id is one more than the largest id the table has had.
  Either statement can fail in the driver.
\<close>

definition db_get :: "driver \<Rightarrow> store \<Rightarrow> string option \<Rightarrow> (error + row option) \<times> store" where
  "db_get drv s title =
     (let s' = s\<lparr>statements := Suc (statements s)\<rparr>
      in if drv (statements s) then (Inl StoreError, s')
         else (case title of
                 None \<Rightarrow> (Inr None, s')
               | Some t \<Rightarrow> (Inr (find (\<lambda>r. journal_title (row_data r) = t) (rows s)), s')))"

definition db_run_insert :: "driver \<Rightarrow> store \<Rightarrow> journal \<Rightarrow> (error + nat) \<times> store" where
  "db_run_insert drv s d =
     (let s' = s\<lparr>statements := Suc (statements s)\<rparr>
      in if drv (statements s) then (Inl StoreError, s')
         else (let lastID = Suc (fold max (map row_id (rows s)) (seq s))
               in (Inr lastID,
                   s'\<lparr>rows := rows s @ [\<lparr>row_id = lastID, row_data = d\<rparr>], seq := lastID\<rparr>)))"

text \<open>\<open>saveJournalData\<close> resolves with an id, or with \<open>null\<close> (here \<open>None\<close>).\<close>

definition saveJournalData :: "driver \<Rightarrow> store \<Rightarrow> journal \<Rightarrow> (error + nat option) \<times> store" where
  "saveJournalData drv s d =
     (case db_get drv s (Some (journal_title d)) of
        (Inl err, s1) \<Rightarrow> (Inl err, s1)
      | (Inr (Some r), s1) \<Rightarrow> (Inr (Some (row_id r)), s1)
      | (Inr None, s1) \<Rightarrow>
          (case db_run_insert drv s1 d of
             (Inl err, s2) \<Rightarrow> (Inl err, s2)
           | (Inr lastID, s2) \<Rightarrow> (Inr (if lastID = 0 then None else Some lastID), s2)))"

text \<open>A sequence of calls, one after the other, with the result of each.\<close>

fun save_all :: "driver \<Rightarrow> store \<Rightarrow> journal list \<Rightarrow> (error + nat option) list \<times> store" where
  "save_all drv s [] = ([], s)"
| "save_all drv s (d # ds) =
     (let (r, s1) = saveJournalData drv s d;
          (rs, s2) = save_all drv s1 ds
      in (r # rs, s2))"



subsection \<open>Notions the properties are stated with\<close>

text \<open>
  The scraper as the constructor leaves it: a new database, the keys of the
  environment variable, the first key current.
\<close>

definition new_scraper :: "string list \<Rightarrow> scraper" where
  "new_scraper keys =
     \<lparr>apiKeys = keys, currentApiKeyIndex = 0,
      db = \<lparr>rows = [], seq = 0, statements = 0\<rparr>,
      requests = 0, trace = []\<rparr>"

text \<open>A request that \<open>axios.get\<close> resolves: a response with a status from 200 to 299.\<close>

definition resolves :: "http_result \<Rightarrow> bool" where
  "resolves r = (case r of Response status body \<Rightarrow> 200 \<le> status \<and> status < 300 | NoResponse \<Rightarrow> False)"


text \<open>A journal record with a given title and aims, every field of the insights page \<open>null\<close>.\<close>

definition journal_of :: "string \<Rightarrow> jsval \<Rightarrow> journal" where
  "journal_of title aims =
     \<lparr>journal_title = title, aims_and_scope = aims,
      j_issn = Null, j_subject_areas = Null, j_cite_score = Null, j_apc = Null,
      j_time_to_first_decision = Null, j_review_time = Null,
      j_submission_to_acceptance = Null, j_acceptance_to_publication = Null,
      j_impact_factor = Null, j_acceptance_rate = Null, j_abstracting_indexing = Null,
      shop_url = ''https://shop.elsevier.com/journals/'' @ title,
      sciencedirect_url = buildScienceDirectUrl title ''about/insights''\<rparr>"

section \<open>Properties\<close>

subsection \<open>The title search\<close>

lemma prefix_take: "prefix p s \<longleftrightarrow> take (length p) s = p"
  by (metis append_eq_conv_conj prefix_def append_take_drop_id)

lemma prefix9: "prefix ''journals/'' s \<longleftrightarrow> take 9 s = ''journals/''"
proof -
  have "length ''journals/'' = 9" by simp
  then show ?thesis using prefix_take [of "''journals/''" s] by metis
qed

lemma match_here_occurrence:
  "match_here s = (if occurrence s 0 then Some (title_after s 0) else None)"
proof (cases "prefix ''journals/'' s")
  case False
  then have "take 9 s \<noteq> ''journals/''" by (simp add: prefix9)
  with False show ?thesis by (simp add: match_here_def occurrence_def)
next
  case True
  then have t: "take 9 s = ''journals/''" by (simp add: prefix9)
  show ?thesis
  proof (cases "drop 9 s")
    case Nil
    with True t show ?thesis by (simp add: match_here_def occurrence_def title_after_def)
  next
    case (Cons d ds)
    then have "9 < length s" by (metis drop_eq_Nil list.distinct(1) not_le)
    moreover have "s ! 9 = d" using Cons by (metis Cons_nth_drop_Suc calculation list.inject)
    ultimately show ?thesis using True t Cons
      by (simp add: match_here_def occurrence_def title_after_def)
  qed
qed

lemma occurrence_Cons: "occurrence (c # cs) (Suc p) = occurrence cs p"
proof -
  have "Suc p + 9 = Suc (p + 9)" by simp
  then show ?thesis unfolding occurrence_def
    by (simp only: drop_Suc_Cons nth_Cons_Suc length_Cons Suc_less_eq)
qed

lemma title_after_Cons: "title_after (c # cs) (Suc p) = title_after cs p"
proof -
  have "Suc p + 9 = Suc (p + 9)" by simp
  then show ?thesis unfolding title_after_def by (simp only: drop_Suc_Cons)
qed

lemma occurrence_Nil: "\<not> occurrence [] p"
  by (simp add: occurrence_def)

lemma regex_match_None: "regex_match s = None \<longleftrightarrow> (\<forall>p. \<not> occurrence s p)"
proof (induction s)
  case Nil
  then show ?case by (simp add: match_here_occurrence occurrence_Nil)
next
  case (Cons c cs)
  have "(\<forall>p. \<not> occurrence (c # cs) p) \<longleftrightarrow>
        \<not> occurrence (c # cs) 0 \<and> (\<forall>p. \<not> occurrence cs p)"
    by (metis occurrence_Cons not0_implies_Suc)
  with Cons show ?case by (simp add: match_here_occurrence)
qed

lemma regex_match_first:
  "occurrence s p \<Longrightarrow> (\<forall>q<p. \<not> occurrence s q) \<Longrightarrow> regex_match s = Some (title_after s p)"
proof (induction s arbitrary: p)
  case Nil
  then show ?case by (simp add: occurrence_Nil)
next
  case (Cons c cs)
  show ?case
  proof (cases p)
    case 0
    with Cons.prems show ?thesis by (simp add: match_here_occurrence)
  next
    case (Suc p')
    with Cons.prems have o: "occurrence cs p'" and n0: "\<not> occurrence (c # cs) 0"
      by (auto simp: occurrence_Cons)
    have "\<forall>q<p'. \<not> occurrence cs q"
      using Cons.prems(2) Suc occurrence_Cons by (metis Suc_less_eq)
    with Cons.IH [OF o] have "regex_match cs = Some (title_after cs p')" by simp
    with n0 Suc show ?thesis by (simp add: match_here_occurrence title_after_Cons)
  qed
qed

lemma extract_regex: "extractJournalTitleFromUrl s = regex_match s"
  by (simp add: extractJournalTitleFromUrl_def split: option.splits)









text \<open>
  Claim C10. The search looks at every position of the text, not only at path
  segments: the result is \<open>null\<close> exactly when no position is an occurrence of
  \<open>journals/\<close> followed by a character other than \<open>/\<close>, and otherwise it is the longest
  run of characters other than \<open>/\<close> after the first occurrence.
\<close>

theorem extractJournalTitleFromUrl_first_occurrence:
  "(extractJournalTitleFromUrl s = None \<longleftrightarrow> (\<forall>p. \<not> occurrence s p)) \<and>
   (occurrence s p \<and> (\<forall>q<p. \<not> occurrence s q)
      \<longrightarrow> extractJournalTitleFromUrl s = Some (title_after s p))"
  using regex_match_None [of s] regex_match_first [of s p] by (simp add: extract_regex)

theorem extractJournalTitleFromUrl_first_occurrence_witness:
  "\<not> occurrence ''x?u=journals/foo/bar'' 0 \<and> \<not> occurrence ''x?u=journals/foo/bar'' 1 \<and>
   \<not> occurrence ''x?u=journals/foo/bar'' 2 \<and> \<not> occurrence ''x?u=journals/foo/bar'' 3 \<and>
   occurrence ''x?u=journals/foo/bar'' 4 \<and>
   extractJournalTitleFromUrl ''x?u=journals/foo/bar'' = Some ''foo'' \<and>
   extractJournalTitleFromUrl ''a/journals//b'' = None \<and>
   (\<forall>p. \<not> occurrence ''a/journals//b'' p)"
proof -
  let ?s = "''x?u=journals/foo/bar''"
  have before: "\<not> occurrence ?s 0 \<and> \<not> occurrence ?s 1 \<and> \<not> occurrence ?s 2 \<and> \<not> occurrence ?s 3"
    by (simp add: occurrence_def)
  have "\<And>q. q < (4::nat) \<Longrightarrow> q = 0 \<or> q = 1 \<or> q = 2 \<or> q = 3" by arith
  with before have first: "\<forall>q<4. \<not> occurrence ?s q" by blast
  have here: "occurrence ?s 4" by (simp add: occurrence_def)
  have "extractJournalTitleFromUrl ?s = Some (title_after ?s 4)"
    using extractJournalTitleFromUrl_first_occurrence [of ?s 4] here first by blast
  then have some: "extractJournalTitleFromUrl ?s = Some ''foo''"
    by (simp add: title_after_def)
  have none: "extractJournalTitleFromUrl ''a/journals//b'' = None"
    by (simp add: extractJournalTitleFromUrl_def match_here_def)
  then have "\<forall>p. \<not> occurrence ''a/journals//b'' p"
    using extractJournalTitleFromUrl_first_occurrence [of "''a/journals//b''" 0] by blast
  with before here some none show ?thesis by blast
qed

subsection \<open>Fetching with retries\<close>

lemma fetch_loop_done: "\<not> i < retries \<Longrightarrow> fetch_loop net url retries i st = (failed_response, st)"
  by (simp add: fetch_loop.simps)

lemma fetch_loop_return:
  "i < retries \<Longrightarrow> attempt net url retries i st = (Return r, st') \<Longrightarrow>
     fetch_loop net url retries i st = (r, st')"
  by (simp add: fetch_loop.simps)

lemma fetch_loop_continue:
  "i < retries \<Longrightarrow> attempt net url retries i st = (Continue, st') \<Longrightarrow>
     fetch_loop net url retries i st = fetch_loop net url retries (Suc i) st'"
  by (simp add: fetch_loop.simps)

lemma attempt_rotate:
  assumes "net (requests st) (getApiKey st) url = Response status body"
    and "status = 401 \<or> status = 403"
  shows "attempt net url retries i st =
     (Continue,
      st\<lparr>currentApiKeyIndex := (currentApiKeyIndex st + 1) mod length (apiKeys st),
         requests := Suc (requests st),
         trace := trace st @ [Request (getApiKey st) url]\<rparr>)"
  using assms by (auto simp: attempt_def switchApiKey_def sent_def)

lemma attempt_backoff:
  assumes "net (requests st) (getApiKey st) url = Response status body"
    and "status = 429 \<or> status = 500"
  shows "attempt net url retries i st =
     (Continue,
      st\<lparr>requests := Suc (requests st),
         trace := trace st @ [Request (getApiKey st) url, Sleep (1000 * 2 ^ i)]\<rparr>)"
  using assms by (auto simp: attempt_def sleep_def sent_def)

lemma attempt_success:
  assumes "net (requests st) (getApiKey st) url = Response status body"
    and "200 \<le> status" and "status < 300"
  shows "attempt net url retries i st =
     (Return \<lparr>ok = True, text_of = body\<rparr>,
      st\<lparr>requests := Suc (requests st), trace := trace st @ [Request (getApiKey st) url]\<rparr>)"
  using assms by (simp add: attempt_def sent_def)

lemma getApiKey_cong:
  "apiKeys st' = apiKeys st \<Longrightarrow> currentApiKeyIndex st' = currentApiKeyIndex st \<Longrightarrow>
     getApiKey st' = getApiKey st"
  by (simp add: getApiKey_def)

lemma scenario_429_429_200:
  assumes budget: "3 \<le> retries"
    and r1: "net (requests st) (getApiKey st) url = Response 429 b1"
    and r2: "net (Suc (requests st)) (getApiKey st) url = Response 429 b2"
    and r3: "net (Suc (Suc (requests st))) (getApiKey st) url = Response 200 b3"
  shows "fetchWithRetry net url retries st =
     (\<lparr>ok = True, text_of = b3\<rparr>,
      st\<lparr>requests := requests st + 3,
         trace := trace st @ [Request (getApiKey st) url, Sleep 1000, Request (getApiKey st) url,
                             Sleep 2000, Request (getApiKey st) url]\<rparr>)"
proof -
  let ?k = "getApiKey st"
  define st1 where "st1 = st\<lparr>requests := Suc (requests st),
         trace := trace st @ [Request ?k url, Sleep (1000 * 2 ^ 0)]\<rparr>"
  define st2 where "st2 = st1\<lparr>requests := Suc (requests st1),
         trace := trace st1 @ [Request (getApiKey st1) url, Sleep (1000 * 2 ^ 1)]\<rparr>"
  have k1: "getApiKey st1 = ?k" by (simp add: st1_def getApiKey_def)
  have k2: "getApiKey st2 = ?k" by (simp add: st2_def st1_def getApiKey_def)
  have q1: "requests st1 = Suc (requests st)" by (simp add: st1_def)
  have q2: "requests st2 = Suc (Suc (requests st))" by (simp add: st2_def st1_def)
  have a1: "attempt net url retries 0 st = (Continue, st1)"
    unfolding st1_def using r1 by (intro attempt_backoff) auto
  have a2: "attempt net url retries 1 st1 = (Continue, st2)"
    unfolding st2_def using r2 k1 q1 by (intro attempt_backoff) auto
  have a3: "attempt net url retries 2 st2 =
      (Return \<lparr>ok = True, text_of = b3\<rparr>,
       st2\<lparr>requests := Suc (requests st2), trace := trace st2 @ [Request (getApiKey st2) url]\<rparr>)"
    using r3 k2 q2 by (intro attempt_success) auto
  have "fetchWithRetry net url retries st = fetch_loop net url retries (Suc 0) st1"
    unfolding fetchWithRetry_def using a1 budget by (intro fetch_loop_continue) auto
  also have "\<dots> = fetch_loop net url retries (Suc (Suc 0)) st2"
    using a2 budget by (intro fetch_loop_continue) auto
  also have "\<dots> = (\<lparr>ok = True, text_of = b3\<rparr>,
       st2\<lparr>requests := Suc (requests st2), trace := trace st2 @ [Request (getApiKey st2) url]\<rparr>)"
    using a3 budget by (intro fetch_loop_return) (auto simp: numeral_2_eq_2)
  also have "st2\<lparr>requests := Suc (requests st2), trace := trace st2 @ [Request (getApiKey st2) url]\<rparr>
     = st\<lparr>requests := requests st + 3,
         trace := trace st @ [Request ?k url, Sleep 1000, Request ?k url, Sleep 2000, Request ?k url]\<rparr>"
    by (simp add: st2_def st1_def getApiKey_def)
  finally show ?thesis .
qed

lemma attempt_requests: "requests (snd (attempt net url retries i st)) = Suc (requests st)"
  by (simp add: attempt_def sent_def sleep_def switchApiKey_def split: http_result.splits)

lemma attempt_unresolved:
  assumes "\<not> resolves (net (requests st) (getApiKey st) url)"
  shows "fst (attempt net url retries i st) = Continue \<or>
         fst (attempt net url retries i st) = Return failed_response"
  using assms
  by (cases "net (requests st) (getApiKey st) url") (auto simp: attempt_def resolves_def)

lemma attempt_cases:
  "fst (attempt net url retries i st) = Continue \<or>
   fst (attempt net url retries i st) = Return failed_response \<or>
   (\<exists>body. fst (attempt net url retries i st) = Return \<lparr>ok = True, text_of = body\<rparr>)"
  by (cases "net (requests st) (getApiKey st) url") (auto simp: attempt_def)

lemma fetch_loop_ok_or_failed:
  "ok (fst (fetch_loop net url retries i st)) \<or>
   fst (fetch_loop net url retries i st) = failed_response"
proof (induction "retries - i" arbitrary: i st)
  case 0
  then show ?case by (simp add: fetch_loop_done)
next
  case (Suc n)
  then have lt: "i < retries" and n: "n = retries - Suc i" by auto
  obtain x st' where a: "attempt net url retries i st = (x, st')" by (cases "attempt net url retries i st")
  from attempt_cases [of net url retries i st] a
  consider "x = Continue" | "x = Return failed_response"
    | body where "x = Return \<lparr>ok = True, text_of = body\<rparr>" by auto
  then show ?case
  proof cases
    case 1
    with a lt have "fetch_loop net url retries i st = fetch_loop net url retries (Suc i) st'"
      by (simp add: fetch_loop_continue)
    with Suc.hyps(1) [OF n] show ?thesis by simp
  next
    case 2
    with a lt show ?thesis by (simp add: fetch_loop_return)
  next
    case 3
    with a lt show ?thesis by (simp add: fetch_loop_return)
  qed
qed

lemma fetch_loop_unresolved:
  "(\<forall>j<retries - i. \<forall>key. \<not> resolves (net (requests st + j) key url)) \<Longrightarrow>
     fst (fetch_loop net url retries i st) = failed_response"
proof (induction "retries - i" arbitrary: i st)
  case 0
  then show ?case by (simp add: fetch_loop_done)
next
  case (Suc n)
  then have lt: "i < retries" and n: "n = retries - Suc i" by auto
  obtain x st' where a: "attempt net url retries i st = (x, st')" by (cases "attempt net url retries i st")
  have "\<not> resolves (net (requests st) (getApiKey st) url)"
    using Suc.prems lt by (metis add.right_neutral zero_less_diff)
  with attempt_unresolved [where net = net and st = st and url = url and retries = retries and i = i] a
  consider "x = Continue" | "x = Return failed_response" by auto
  then show ?case
  proof cases
    case 1
    with a lt have f: "fetch_loop net url retries i st = fetch_loop net url retries (Suc i) st'"
      by (simp add: fetch_loop_continue)
    have q: "requests st' = Suc (requests st)" using attempt_requests [of net url retries i st] a by simp
    have "\<forall>j<retries - Suc i. \<forall>key. \<not> resolves (net (requests st' + j) key url)"
    proof (intro allI impI)
      fix j key assume "j < retries - Suc i"
      then have "Suc j < retries - i" by arith
      with Suc.prems have "\<not> resolves (net (requests st + Suc j) key url)" by blast
      then show "\<not> resolves (net (requests st' + j) key url)" by (simp add: q)
    qed
    with Suc.hyps(1) [OF n] f show ?thesis by simp
  next
    case 2
    with a lt show ?thesis by (simp add: fetch_loop_return)
  qed
qed

text \<open>
  Claim C1. At every loop index below the retry budget, a response with status 401
  or 403 moves the key index to the next key (circularly), records no delay and
  leads to the next pass; a response with status 429 or 500 leaves the key index as
  it is and records a delay of 1000 * 2 ^ i milliseconds before the next pass, where
  \<open>i\<close> is the loop index counted from 0. With 429 on the first two requests and 200
  on the third, a fetch with a budget of 3 or more succeeds with the body of the third response,
  and the trace shows the delays 1000 and 2000 between the three requests.
\<close>

theorem fetchWithRetry_classifies_status:
  "(i < retries \<and> apiKeys st \<noteq> [] \<and>
      net (requests st) (getApiKey st) url = Response status body \<and>
      (status = 401 \<or> status = 403) \<longrightarrow>
      fetch_loop net url retries i st =
      fetch_loop net url retries (Suc i)
        (st\<lparr>currentApiKeyIndex := (currentApiKeyIndex st + 1) mod length (apiKeys st),
            requests := Suc (requests st),
            trace := trace st @ [Request (getApiKey st) url]\<rparr>)) \<and>
   (i < retries \<and>
      net (requests st) (getApiKey st) url = Response status body \<and>
      (status = 429 \<or> status = 500) \<longrightarrow>
      fetch_loop net url retries i st =
      fetch_loop net url retries (Suc i)
        (st\<lparr>requests := Suc (requests st),
            trace := trace st @ [Request (getApiKey st) url, Sleep (1000 * 2 ^ i)]\<rparr>)) \<and>
   (3 \<le> retries \<and>
      net (requests st) (getApiKey st) url = Response 429 b1 \<and>
      net (Suc (requests st)) (getApiKey st) url = Response 429 b2 \<and>
      net (Suc (Suc (requests st))) (getApiKey st) url = Response 200 b3 \<longrightarrow>
      fetchWithRetry net url retries st =
      (\<lparr>ok = True, text_of = b3\<rparr>,
       st\<lparr>requests := requests st + 3,
          trace := trace st @ [Request (getApiKey st) url, Sleep 1000,
                              Request (getApiKey st) url, Sleep 2000,
                              Request (getApiKey st) url]\<rparr>))"
proof (intro conjI impI)
  assume "i < retries \<and> apiKeys st \<noteq> [] \<and>
      net (requests st) (getApiKey st) url = Response status body \<and>
      (status = 401 \<or> status = 403)"
  then show "fetch_loop net url retries i st =
      fetch_loop net url retries (Suc i)
        (st\<lparr>currentApiKeyIndex := (currentApiKeyIndex st + 1) mod length (apiKeys st),
            requests := Suc (requests st),
            trace := trace st @ [Request (getApiKey st) url]\<rparr>)"
    using attempt_rotate [of net st url status body retries i]
    by (intro fetch_loop_continue) blast+
next
  assume "i < retries \<and>
      net (requests st) (getApiKey st) url = Response status body \<and>
      (status = 429 \<or> status = 500)"
  then show "fetch_loop net url retries i st =
      fetch_loop net url retries (Suc i)
        (st\<lparr>requests := Suc (requests st),
            trace := trace st @ [Request (getApiKey st) url, Sleep (1000 * 2 ^ i)]\<rparr>)"
    using attempt_backoff [of net st url status body retries i]
    by (intro fetch_loop_continue) blast+
next
  assume "3 \<le> retries \<and>
      net (requests st) (getApiKey st) url = Response 429 b1 \<and>
      net (Suc (requests st)) (getApiKey st) url = Response 429 b2 \<and>
      net (Suc (Suc (requests st))) (getApiKey st) url = Response 200 b3"
  then show "fetchWithRetry net url retries st =
      (\<lparr>ok = True, text_of = b3\<rparr>,
       st\<lparr>requests := requests st + 3,
          trace := trace st @ [Request (getApiKey st) url, Sleep 1000,
                              Request (getApiKey st) url, Sleep 2000,
                              Request (getApiKey st) url]\<rparr>)"
    using scenario_429_429_200 by blast
qed

theorem fetchWithRetry_classifies_status_witness:
  "fetch_loop (\<lambda>n key url. Response 401 []) ''https://a.io/x'' 3 0 (new_scraper [''k1'', ''k2'']) =
   fetch_loop (\<lambda>n key url. Response 401 []) ''https://a.io/x'' 3 1
     ((new_scraper [''k1'', ''k2''])
        \<lparr>currentApiKeyIndex := 1, requests := 1, trace := [Request (Some ''k1'') ''https://a.io/x'']\<rparr>) \<and>
   fetch_loop (\<lambda>n key url. Response 500 []) ''https://a.io/x'' 3 1 (new_scraper [''k1'', ''k2'']) =
   fetch_loop (\<lambda>n key url. Response 500 []) ''https://a.io/x'' 3 2
     ((new_scraper [''k1'', ''k2''])
        \<lparr>requests := 1, trace := [Request (Some ''k1'') ''https://a.io/x'', Sleep 2000]\<rparr>) \<and>
   fetchWithRetry (\<lambda>n key url. if n < 2 then Response 429 [] else Response 200 ''<html>ok</html>'')
       ''https://a.io/x'' 3 (new_scraper [''k1'', ''k2'']) =
     (\<lparr>ok = True, text_of = ''<html>ok</html>''\<rparr>,
      (new_scraper [''k1'', ''k2''])
        \<lparr>requests := 3,
         trace := [Request (Some ''k1'') ''https://a.io/x'', Sleep 1000,
                   Request (Some ''k1'') ''https://a.io/x'', Sleep 2000,
                   Request (Some ''k1'') ''https://a.io/x'']\<rparr>)"
proof -
  let ?st = "new_scraper [''k1'', ''k2'']"
  let ?url = "''https://a.io/x''"
  let ?n401 = "\<lambda>(n::nat) (key::string option) (url::string). Response 401 []"
  let ?n500 = "\<lambda>(n::nat) (key::string option) (url::string). Response 500 []"
  let ?n429 = "\<lambda>(n::nat) (key::string option) (url::string).
                 if n < 2 then Response 429 [] else Response 200 ''<html>ok</html>''"
  have key: "getApiKey ?st = Some ''k1''" by (simp add: getApiKey_def new_scraper_def)
  have h1: "(0::nat) < 3 \<and> apiKeys ?st \<noteq> [] \<and>
      ?n401 (requests ?st) (getApiKey ?st) ?url = Response 401 [] \<and>
      ((401::nat) = 401 \<or> (401::nat) = 403)"
    by (simp add: new_scraper_def)
  have h2: "(1::nat) < 3 \<and>
      ?n500 (requests ?st) (getApiKey ?st) ?url = Response 500 [] \<and>
      ((500::nat) = 429 \<or> (500::nat) = 500)"
    by simp
  have h3: "(3::nat) \<le> 3 \<and> ?n429 (requests ?st) (getApiKey ?st) ?url = Response 429 [] \<and>
      ?n429 (Suc (requests ?st)) (getApiKey ?st) ?url = Response 429 [] \<and>
      ?n429 (Suc (Suc (requests ?st))) (getApiKey ?st) ?url = Response 200 ''<html>ok</html>''"
    by (simp add: new_scraper_def)
  note c1 = fetchWithRetry_classifies_status
    [where i = 0 and retries = 3 and st = ?st and net = ?n401 and url = ?url
       and status = 401 and body = "[]", THEN conjunct1, THEN mp, OF h1]
  note c2 = fetchWithRetry_classifies_status
    [where i = 1 and retries = 3 and st = ?st and net = ?n500 and url = ?url
       and status = 500 and body = "[]", THEN conjunct2, THEN conjunct1, THEN mp, OF h2]
  note c3 = fetchWithRetry_classifies_status
    [where retries = 3 and st = ?st and net = ?n429 and url = ?url and ?b1.0 = "[]" and ?b2.0 = "[]"
       and ?b3.0 = "''<html>ok</html>''", THEN conjunct2, THEN conjunct2, THEN mp, OF h3]
  have s1: "?st\<lparr>currentApiKeyIndex := (currentApiKeyIndex ?st + 1) mod length (apiKeys ?st),
            requests := Suc (requests ?st),
            trace := trace ?st @ [Request (getApiKey ?st) ?url]\<rparr> =
        ?st\<lparr>currentApiKeyIndex := 1, requests := 1, trace := [Request (Some ''k1'') ?url]\<rparr>"
    unfolding key by (simp add: new_scraper_def)
  have s2: "?st\<lparr>requests := Suc (requests ?st),
            trace := trace ?st @ [Request (getApiKey ?st) ?url, Sleep (1000 * 2 ^ 1)]\<rparr> =
        ?st\<lparr>requests := 1, trace := [Request (Some ''k1'') ?url, Sleep 2000]\<rparr>"
    unfolding key by (simp add: new_scraper_def)
  have s3: "?st\<lparr>requests := requests ?st + 3,
          trace := trace ?st @ [Request (getApiKey ?st) ?url, Sleep 1000,
                              Request (getApiKey ?st) ?url, Sleep 2000,
                              Request (getApiKey ?st) ?url]\<rparr> =
        ?st\<lparr>requests := 3,
         trace := [Request (Some ''k1'') ?url, Sleep 1000,
                   Request (Some ''k1'') ?url, Sleep 2000,
                   Request (Some ''k1'') ?url]\<rparr>"
    unfolding key by (simp add: new_scraper_def)
  from c1 c2 c3 show ?thesis unfolding s1 s2 s3 by (simp only: One_nat_def numeral_2_eq_2 simp_thms)
qed

text \<open>
  Claim C2. \<open>fetchWithRetry\<close> returns a response in every case: one that is \<open>ok\<close>,
  or the sentinel with \<open>ok = false\<close> and the empty body. When none of the requests of
  its budget is resolved, whatever the key (a status such as 404, or no response at
  all), the result is the sentinel.
\<close>

theorem fetchWithRetry_returns_sentinel:
  "(ok (fst (fetchWithRetry net url retries st)) \<or>
      fst (fetchWithRetry net url retries st) = \<lparr>ok = False, text_of = []\<rparr>) \<and>
   ((\<forall>j<retries. \<forall>key. \<not> resolves (net (requests st + j) key url)) \<longrightarrow>
      fst (fetchWithRetry net url retries st) = \<lparr>ok = False, text_of = []\<rparr>)"
  using fetch_loop_ok_or_failed [of net url retries 0 st]
    fetch_loop_unresolved [of retries 0 net st url]
  by (simp add: fetchWithRetry_def failed_response_def)

theorem fetchWithRetry_returns_sentinel_witness:
  "\<not> resolves (Response 404 ''Not Found'') \<and>
   fst (fetchWithRetry (\<lambda>n key url. Response 404 ''Not Found'') ''https://a.io/x'' 3
          (new_scraper [''k1''])) = \<lparr>ok = False, text_of = []\<rparr>"
proof -
  let ?net = "\<lambda>(n::nat) (key::string option) (url::string). Response 404 ''Not Found''"
  have r: "\<not> resolves (Response 404 ''Not Found'')" by (simp add: resolves_def)
  then have h: "\<forall>j<3. \<forall>key. \<not> resolves (?net (requests (new_scraper [''k1'']) + j) key ''https://a.io/x'')"
    by simp
  from fetchWithRetry_returns_sentinel
    [where net = ?net and url = "''https://a.io/x''" and retries = 3
       and st = "new_scraper [''k1'']", THEN conjunct2, THEN mp, OF h] r
  show ?thesis by (rule conjI [rotated])
qed

subsection \<open>Storing once per title\<close>

lemma find_append_Some: "find P xs = Some x \<Longrightarrow> find P (xs @ ys) = Some x"
  by (induction xs) (auto split: if_splits)

lemma find_append_None: "find P xs = None \<Longrightarrow> find P (xs @ ys) = find P ys"
  by (induction xs) (auto split: if_splits)

lemma find_None_filter: "find P xs = None \<longleftrightarrow> filter P xs = []"
  by (induction xs) auto

lemma find_Some_filter: "find P xs = Some x \<Longrightarrow> 1 \<le> length (filter P xs)"
  by (induction xs) (auto split: if_splits)

lemma save_rows_grow: "\<exists>new. rows (snd (saveJournalData drv s d)) = rows s @ new"
  by (auto simp: saveJournalData_def db_get_def db_run_insert_def Let_def
      split: option.splits)

lemma save_all_rows_grow: "\<exists>new. rows (snd (save_all drv s ds)) = rows s @ new"
proof (induction ds arbitrary: s)
  case Nil
  then show ?case by simp
next
  case (Cons d ds)
  obtain r s1 where a: "saveJournalData drv s d = (r, s1)" by (cases "saveJournalData drv s d")
  obtain rs s2 where b: "save_all drv s1 ds = (rs, s2)" by (cases "save_all drv s1 ds")
  from save_rows_grow [of drv s d] a obtain n1 where "rows s1 = rows s @ n1" by auto
  moreover from Cons.IH [of s1] b obtain n2 where "rows s2 = rows s1 @ n2" by auto
  ultimately have "rows s2 = rows s @ (n1 @ n2)" by simp
  with a b show ?case by auto
qed

lemma save_first:
  assumes "saveJournalData drv s d = (Inr r, s1)"
  shows "\<exists>x. find (\<lambda>x. journal_title (row_data x) = journal_title d) (rows s1) = Some x \<and>
             r = Some (row_id x) \<and>
             length (filter (\<lambda>x. journal_title (row_data x) = journal_title d) (rows s1)) =
               max 1 (length (filter (\<lambda>x. journal_title (row_data x) = journal_title d) (rows s)))"
proof (cases "find (\<lambda>x. journal_title (row_data x) = journal_title d) (rows s)")
  case None
  then have "filter (\<lambda>x. journal_title (row_data x) = journal_title d) (rows s) = []"
    by (simp add: find_None_filter)
  with None assms show ?thesis
    by (auto simp: saveJournalData_def db_get_def db_run_insert_def Let_def find_append_None
        split: if_splits)
next
  case (Some x)
  from find_Some_filter [OF Some] Some assms show ?thesis
    by (auto simp: saveJournalData_def db_get_def Let_def split: if_splits)
qed

lemma save_again:
  assumes "find (\<lambda>x. journal_title (row_data x) = journal_title d) (rows s) = Some x"
  shows "rows (snd (saveJournalData drv s d)) = rows s"
    and "fst (saveJournalData drv s d) = Inr r \<Longrightarrow> r = Some (row_id x)"
  using assms by (auto simp: saveJournalData_def db_get_def Let_def split: if_splits)

lemma save_keeps_count:
  assumes "find (\<lambda>x. journal_title (row_data x) = t) (rows s) = Some x"
  shows "filter (\<lambda>x. journal_title (row_data x) = t) (rows (snd (saveJournalData drv s d))) =
         filter (\<lambda>x. journal_title (row_data x) = t) (rows s)"
proof (cases "journal_title d = t")
  case True
  with assms save_again(1) [of d s x drv] show ?thesis by simp
next
  case False
  then show ?thesis
    by (auto simp: saveJournalData_def db_get_def db_run_insert_def Let_def
        split: option.splits)
qed

lemma save_all_keeps_count:
  "find (\<lambda>x. journal_title (row_data x) = t) (rows s) = Some x \<Longrightarrow>
     filter (\<lambda>x. journal_title (row_data x) = t) (rows (snd (save_all drv s ds))) =
     filter (\<lambda>x. journal_title (row_data x) = t) (rows s)"
proof (induction ds arbitrary: s)
  case Nil
  then show ?case by simp
next
  case (Cons d ds)
  obtain r s1 where a: "saveJournalData drv s d = (r, s1)" by (cases "saveJournalData drv s d")
  obtain rs s2 where b: "save_all drv s1 ds = (rs, s2)" by (cases "save_all drv s1 ds")
  from save_rows_grow [of drv s d] a obtain n1 where "rows s1 = rows s @ n1" by auto
  with Cons.prems have f: "find (\<lambda>x. journal_title (row_data x) = t) (rows s1) = Some x"
    by (simp add: find_append_Some)
  from save_keeps_count [OF Cons.prems, of drv d] a
  have "filter (\<lambda>x. journal_title (row_data x) = t) (rows s1) =
        filter (\<lambda>x. journal_title (row_data x) = t) (rows s)" by simp
  with Cons.IH [OF f] a b show ?case by simp
qed

lemma save_no_fault:
  assumes "\<forall>n. \<not> drv n"
  shows "\<exists>i s'. saveJournalData drv s d = (Inr (Some i), s')"
  using assms by (auto simp: saveJournalData_def db_get_def db_run_insert_def Let_def
      split: option.splits)

text \<open>
  Claim C4. Take two calls of \<open>saveJournalData\<close> with records of the same title, the
  second after any sequence of further calls, both of which return (the driver did
  not fail in them). They return the same id; the second call leaves the rows as
  they were; the rows after the first call are still there, in place, so the first
  row of that title is the same row with the same fields; and the table holds one
  row of that title if it held none before the first call, else as many as before.
  When the driver never fails, a call returns an id.
\<close>

theorem saveJournalData_same_title:
  "(journal_title d1 = journal_title d2 \<and>
    saveJournalData drv s d1 = (Inr r1, s1) \<and>
    save_all drv s1 ds = (rs, s2) \<and>
    saveJournalData drv s2 d2 = (Inr r2, s3) \<longrightarrow>
      r2 = r1 \<and>
      rows s3 = rows s2 \<and>
      (\<exists>new. rows s3 = rows s1 @ new) \<and>
      find (\<lambda>x. journal_title (row_data x) = journal_title d1) (rows s3) =
        find (\<lambda>x. journal_title (row_data x) = journal_title d1) (rows s1) \<and>
      length (filter (\<lambda>x. journal_title (row_data x) = journal_title d1) (rows s3)) =
        max 1 (length (filter (\<lambda>x. journal_title (row_data x) = journal_title d1) (rows s)))) \<and>
   ((\<forall>n. \<not> drv n) \<longrightarrow> (\<exists>i s'. saveJournalData drv s d1 = (Inr (Some i), s')))"
proof (intro conjI impI)
  assume h: "journal_title d1 = journal_title d2 \<and>
    saveJournalData drv s d1 = (Inr r1, s1) \<and>
    save_all drv s1 ds = (rs, s2) \<and>
    saveJournalData drv s2 d2 = (Inr r2, s3)"
  let ?P = "\<lambda>x. journal_title (row_data x) = journal_title d1"
  from h save_first [of drv s d1 r1 s1] obtain x where
    x: "find ?P (rows s1) = Some x" and r1: "r1 = Some (row_id x)"
    and c1: "length (filter ?P (rows s1)) = max 1 (length (filter ?P (rows s)))" by auto
  from save_all_rows_grow [of drv s1 ds] h obtain mid where mid: "rows s2 = rows s1 @ mid"
    by auto
  with x have x2: "find ?P (rows s2) = Some x" by (simp add: find_append_Some)
  from h have x2': "find (\<lambda>x. journal_title (row_data x) = journal_title d2) (rows s2) = Some x"
    using x2 by simp
  from save_again [OF x2', of drv] h have same: "rows s3 = rows s2" and r2: "r2 = Some (row_id x)"
    by auto
  from save_all_keeps_count [OF x, of drv ds] h have c2: "filter ?P (rows s2) = filter ?P (rows s1)"
    by simp
  show "r2 = r1" using r1 r2 by simp
  show "rows s3 = rows s2" by (rule same)
  show "\<exists>new. rows s3 = rows s1 @ new" using same mid by simp
  show "find ?P (rows s3) = find ?P (rows s1)" using same x2 x by simp
  show "length (filter ?P (rows s3)) = max 1 (length (filter ?P (rows s)))"
    using same c2 c1 by simp
next
  assume "\<forall>n. \<not> drv n"
  then show "\<exists>i s'. saveJournalData drv s d1 = (Inr (Some i), s')" by (rule save_no_fault)
qed

theorem saveJournalData_same_title_witness:
  "fst (saveJournalData (\<lambda>n. False) \<lparr>rows = [], seq = 0, statements = 0\<rparr>
          (journal_of ''foo'' Null)) = Inr (Some 1) \<and>
   fst (saveJournalData (\<lambda>n. False)
          (snd (save_all (\<lambda>n. False)
                  (snd (saveJournalData (\<lambda>n. False) \<lparr>rows = [], seq = 0, statements = 0\<rparr>
                          (journal_of ''foo'' Null)))
                  [journal_of ''bar'' Null]))
          (journal_of ''foo'' (Str ''Aims''))) = Inr (Some 1) \<and>
   map (\<lambda>x. (row_id x, journal_title (row_data x), aims_and_scope (row_data x)))
     (rows (snd (saveJournalData (\<lambda>n. False)
          (snd (save_all (\<lambda>n. False)
                  (snd (saveJournalData (\<lambda>n. False) \<lparr>rows = [], seq = 0, statements = 0\<rparr>
                          (journal_of ''foo'' Null)))
                  [journal_of ''bar'' Null]))
          (journal_of ''foo'' (Str ''Aims''))))) = [(1, ''foo'', Null), (2, ''bar'', Null)]"
proof -
  let ?drv = "\<lambda>n::nat. False"
  let ?s = "\<lparr>rows = [], seq = 0, statements = 0\<rparr>"
  let ?d1 = "journal_of ''foo'' Null"
  let ?d2 = "journal_of ''foo'' (Str ''Aims'')"
  let ?d = "journal_of ''bar'' Null"
  let ?s1 = "snd (saveJournalData ?drv ?s ?d1)"
  let ?s2 = "snd (save_all ?drv ?s1 [?d])"
  let ?s3 = "snd (saveJournalData ?drv ?s2 ?d2)"
  have e1: "saveJournalData ?drv ?s ?d1 =
      (Inr (Some 1), \<lparr>rows = [\<lparr>row_id = 1, row_data = ?d1\<rparr>], seq = 1, statements = 2\<rparr>)"
    by (simp add: saveJournalData_def db_get_def db_run_insert_def)
  have e2: "save_all ?drv \<lparr>rows = [\<lparr>row_id = 1, row_data = ?d1\<rparr>], seq = 1, statements = 2\<rparr> [?d] =
      ([Inr (Some 2)],
       \<lparr>rows = [\<lparr>row_id = 1, row_data = ?d1\<rparr>, \<lparr>row_id = 2, row_data = ?d\<rparr>], seq = 2,
          statements = 4\<rparr>)"
    by (simp add: saveJournalData_def db_get_def db_run_insert_def journal_of_def)
  have s1: "?s1 = \<lparr>rows = [\<lparr>row_id = 1, row_data = ?d1\<rparr>], seq = 1, statements = 2\<rparr>"
    by (simp add: e1)
  have s2: "?s2 = \<lparr>rows = [\<lparr>row_id = 1, row_data = ?d1\<rparr>, \<lparr>row_id = 2, row_data = ?d\<rparr>],
       seq = 2, statements = 4\<rparr>"
    by (simp only: s1 e2 snd_conv)
  have e3: "fst (saveJournalData ?drv ?s2 ?d2) = Inr (Some 1)"
    unfolding s2 by (simp add: saveJournalData_def db_get_def journal_of_def)
  have h: "journal_title ?d1 = journal_title ?d2 \<and>
    saveJournalData ?drv ?s ?d1 = (Inr (Some 1), ?s1) \<and>
    save_all ?drv ?s1 [?d] = ([Inr (Some 2)], ?s2) \<and>
    saveJournalData ?drv ?s2 ?d2 = (Inr (Some 1), ?s3)"
  proof (intro conjI)
    show "journal_title ?d1 = journal_title ?d2" by (simp add: journal_of_def)
    show "saveJournalData ?drv ?s ?d1 = (Inr (Some 1), ?s1)" by (simp add: e1)
    show "save_all ?drv ?s1 [?d] = ([Inr (Some 2)], ?s2)" by (simp only: s1 e2 snd_conv)
    show "saveJournalData ?drv ?s2 ?d2 = (Inr (Some 1), ?s3)"
      using e3 by (metis prod.collapse)
  qed
  from saveJournalData_same_title
    [where drv = ?drv and s = ?s and ?d1.0 = ?d1 and ?d2.0 = ?d2 and ds = "[?d]"
       and ?r1.0 = "Some 1" and ?r2.0 = "Some 1" and rs = "[Inr (Some 2)]"
       and ?s1.0 = ?s1 and ?s2.0 = ?s2 and ?s3.0 = ?s3, THEN conjunct1, THEN mp, OF h]
  have "rows ?s3 = rows ?s2" by blast
  then have r: "rows ?s3 = [\<lparr>row_id = 1, row_data = ?d1\<rparr>, \<lparr>row_id = 2, row_data = ?d\<rparr>]"
    by (simp only: s2 store.simps)
  have m: "map (\<lambda>x. (row_id x, journal_title (row_data x), aims_and_scope (row_data x)))
     [\<lparr>row_id = 1, row_data = ?d1\<rparr>, \<lparr>row_id = 2, row_data = ?d\<rparr>]
      = [(1, ''foo'', Null), (2, ''bar'', Null)]"
    by (simp add: journal_of_def)
  show ?thesis using e1 e3 r m by simp
qed

subsection \<open>Reading the insights page\<close>

lemmas dom_defs = querySelectorAll_def querySelector_def element_querySelector_def selects_def
  classes_def tag_def

lemmas parse_defs = parseFloat_str_def unsigned_literal_def is_space_def is_digit_def
  decimal_def digit_val_def scale_def exponent_part_def

lemma find_first:
  "\<forall>b\<in>set before. \<not> P b \<Longrightarrow> P x \<Longrightarrow> find P (before @ x # after) = Some x"
  by (induction before) auto

lemma find_none: "\<forall>b\<in>set xs. \<not> P b \<Longrightarrow> find P xs = None"
  by (induction xs) auto

lemma parse_undefined: "parseFloat None = NaN"
  by (simp add: parseFloat_def parse_defs)

lemma parse_not_available: "parseFloat_str ''N/A'' = NaN"
  by (simp add: parse_defs)

lemma parse_price: "parseFloat_str ''1234.50'' = Finite 1234.5"
  by (simp add: parse_defs)

lemma replace_single: "replace s [c] [] = remove1 c s"
  by (induction s) auto

lemma filter_absent: "count_list s c = 0 \<Longrightarrow> filter (\<lambda>x. x \<noteq> c) s = s"
  by (induction s) (auto split: if_splits)

lemma remove1_once: "count_list s c \<le> 1 \<Longrightarrow> remove1 c s = filter (\<lambda>x. x \<noteq> c) s"
  by (induction s) (auto simp: filter_absent split: if_splits)

lemma count_filter_other: "c \<noteq> d \<Longrightarrow> count_list (filter (\<lambda>x. x \<noteq> d) s) c = count_list s c"
  by (induction s) auto

lemma strip_price:
  assumes "count_list t CHR ''$'' \<le> 1" and "count_list t CHR '','' \<le> 1"
  shows "replace (replace t ''$'' []) '','' [] = filter (\<lambda>c. c \<noteq> CHR ''$'' \<and> c \<noteq> CHR '','') t"
proof -
  have a: "replace t ''$'' [] = filter (\<lambda>x. x \<noteq> CHR ''$'') t"
    using assms(1) by (simp add: replace_single remove1_once)
  have "count_list (filter (\<lambda>x. x \<noteq> CHR ''$'') t) CHR '','' \<le> 1"
    using assms(2) by (simp add: count_filter_other)
  then have "replace (filter (\<lambda>x. x \<noteq> CHR ''$'') t) '','' [] =
      filter (\<lambda>x. x \<noteq> CHR '','') (filter (\<lambda>x. x \<noteq> CHR ''$'') t)"
    by (simp add: replace_single remove1_once)
  with a show ?thesis by (simp add: conj_commute)
qed

lemma metric_absent:
  assumes "\<forall>box\<in>set (querySelectorAll [classes [''metric-box'']] document).
             \<not> str_includes (textContent box) label"
  shows "getMetricValue document label = Inr Null"
  using find_none [OF assms] by (simp add: getMetricValue_def)

lemma metric_found:
  assumes "querySelectorAll [classes [''metric-box'']] document = before @ box # after"
    and "\<forall>b\<in>set before. \<not> str_includes (textContent b) label"
    and "str_includes (textContent box) label"
    and "element_querySelector (classes [''text-xl'']) box = Some e"
  shows "getMetricValue document label = Inr (Num (parseFloat_str (textContent e)))"
proof -
  have "find (\<lambda>box. str_includes (textContent box) label) (before @ box # after) = Some box"
    using assms(2,3) by (intro find_first) auto
  with assms(1,4) show ?thesis by (simp add: getMetricValue_def)
qed

lemma metric_throws:
  assumes "querySelectorAll [classes [''metric-box'']] document = before @ box # after"
    and "\<forall>b\<in>set before. \<not> str_includes (textContent b) label"
    and "str_includes (textContent box) label"
    and "element_querySelector (classes [''text-xl'']) box = None"
  shows "getMetricValue document label = Inl TypeError"
proof -
  have "find (\<lambda>box. str_includes (textContent box) label) (before @ box # after) = Some box"
    using assms(2,3) by (intro find_first) auto
  with assms(1,4) show ?thesis by (simp add: getMetricValue_def)
qed

lemma subject_absent:
  assumes "\<forall>r\<in>set (querySelectorAll [classes [''row'', ''gutters'', ''hor-line'', ''u-padding-l-ver'']]
                      document).
             \<forall>h. element_querySelector (tag ''h3'') r = Some h \<longrightarrow>
                 trim (textContent h) \<noteq> ''Subject areas''"
  shows "subject_areas_of document = Str ''N/A''"
proof -
  have "subjectAreasDiv document = None"
    unfolding subjectAreasDiv_def using assms
    by (intro find_none) (auto split: option.splits)
  then show ?thesis by (simp add: subject_areas_of_def)
qed

lemma subject_found:
  assumes "querySelectorAll [classes [''row'', ''gutters'', ''hor-line'', ''u-padding-l-ver'']]
             document = before @ r # after"
    and "\<forall>b\<in>set before. \<forall>h. element_querySelector (tag ''h3'') b = Some h \<longrightarrow>
                 trim (textContent h) \<noteq> ''Subject areas''"
    and "element_querySelector (tag ''h3'') r = Some h"
    and "trim (textContent h) = ''Subject areas''"
    and "element_querySelector (classes [''col-lg-17'', ''col-xs-24'', ''text-s'']) r = Some cell"
  shows "subject_areas_of document = Str (trim (textContent cell))"
proof -
  have "subjectAreasDiv document = Some r"
    unfolding subjectAreasDiv_def assms(1) using assms(2,3,4)
    by (intro find_first) (auto split: option.splits)
  with assms(5) show ?thesis by (simp add: subject_areas_of_def)
qed

lemma apc_absent:
  "querySelector [classes [''list-price-without-waiver''], classes [''text-xl'']] document = None
     \<Longrightarrow> apc_of document = Num NaN"
  by (simp add: apc_of_def parse_undefined)

lemma apc_present:
  "querySelector [classes [''list-price-without-waiver''], classes [''text-xl'']] document = Some e
     \<Longrightarrow> apc_of document =
         Num (parseFloat_str (replace (replace (textContent e) ''$'' []) '','' []))"
  by (simp add: apc_of_def parseFloat_def)

text \<open>
  Claim C5 says that \<open>parseInsightsPage\<close> never throws, also when a metric box holds
  the label text and lacks the emphasized numeric child. On the page below, whose
  only metric box holds the text \<open>CiteScore\<close> and no \<open>.text-xl\<close> element, the function
  throws a TypeError: the whole page is lost, not one field.
\<close>

theorem parseInsightsPage_throws_without_number:
  "parseInsightsPage
     (Element ''html'' []
        [Element ''head'' [] [],
         Element ''body'' [] [Element ''div'' [''metric-box''] [Text ''CiteScore'']]])
   = Inl TypeError"
  by (simp add: parseInsightsPage_def getMetricValue_def bind_def dom_defs)

text \<open>
  Claim C6, as amended. When no metric box of the page includes the label, the lookup
  yields \<open>null\<close> and does not throw. When the first metric box that includes the label
  has a \<open>.text-xl\<close> element whose text \<open>parseFloat\<close> cannot read, the lookup yields NaN.
\<close>

theorem getMetricValue_absent_or_unparseable:
  "((\<forall>box\<in>set (querySelectorAll [classes [''metric-box'']] document).
        \<not> str_includes (textContent box) label)
      \<longrightarrow> getMetricValue document label = Inr Null) \<and>
   (querySelectorAll [classes [''metric-box'']] document = before @ box # after \<and>
    (\<forall>b\<in>set before. \<not> str_includes (textContent b) label) \<and>
    str_includes (textContent box) label \<and>
    element_querySelector (classes [''text-xl'']) box = Some e \<and>
    parseFloat_str (textContent e) = NaN
      \<longrightarrow> getMetricValue document label = Inr (Num NaN))"
  using metric_absent [of document label] metric_found [of document before box after label e]
  by auto

theorem getMetricValue_absent_or_unparseable_witness:
  "getMetricValue
     (Element ''html'' []
        [Element ''body'' []
           [Element ''div'' [''metric-box'']
              [Element ''span'' [''text-xl''] [Text ''n/a''], Text ''CiteScore'']]])
     ''Review time'' = Inr Null \<and>
   parseFloat_str ''n/a'' = NaN \<and>
   getMetricValue
     (Element ''html'' []
        [Element ''body'' []
           [Element ''div'' [''metric-box'']
              [Element ''span'' [''text-xl''] [Text ''n/a''], Text ''CiteScore'']]])
     ''CiteScore'' = Inr (Num NaN)"
proof -
  let ?e = "Element ''span'' [''text-xl''] [Text ''n/a'']"
  let ?box = "Element ''div'' [''metric-box''] [?e, Text ''CiteScore'']"
  let ?doc = "Element ''html'' [] [Element ''body'' [] [?box]]"
  have boxes: "querySelectorAll [classes [''metric-box'']] ?doc = [] @ ?box # []"
    by (simp add: dom_defs)
  have none: "\<forall>box\<in>set (querySelectorAll [classes [''metric-box'']] ?doc).
      \<not> str_includes (textContent box) ''Review time''"
    by (simp add: dom_defs)
  have nan: "parseFloat_str ''n/a'' = NaN" by (simp add: parse_defs)
  have found: "querySelectorAll [classes [''metric-box'']] ?doc = [] @ ?box # [] \<and>
    (\<forall>b\<in>set []. \<not> str_includes (textContent b) ''CiteScore'') \<and>
    str_includes (textContent ?box) ''CiteScore'' \<and>
    element_querySelector (classes [''text-xl'']) ?box = Some ?e \<and>
    parseFloat_str (textContent ?e) = NaN"
    using boxes nan by (simp add: dom_defs)
  note a = getMetricValue_absent_or_unparseable
    [where document = ?doc and label = "''Review time''", THEN conjunct1, THEN mp, OF none]
  note b = getMetricValue_absent_or_unparseable
    [where document = ?doc and label = "''CiteScore''" and before = "[]" and box = ?box
       and after = "[]" and e = ?e, THEN conjunct2, THEN mp, OF found]
  from a nan b show ?thesis by (intro conjI)
qed

text \<open>
  Claim C6 as stated fails: with the unparseable text \<open>n/a\<close> in the matching box the
  lookup does not yield \<open>null\<close>.
\<close>

theorem getMetricValue_unparseable_counterexample:
  "getMetricValue
     (Element ''html'' []
        [Element ''body'' []
           [Element ''div'' [''metric-box'']
              [Element ''span'' [''text-xl''] [Text ''n/a''], Text ''CiteScore'']]])
     ''CiteScore'' \<noteq> Inr Null"
  by (simp add: getMetricValue_def dom_defs parse_defs)

text \<open>
  Claim C7, as amended. Without the price element the charge is NaN. With it, the
  text \<open>$1,234.50\<close> yields 1234.5 and the text \<open>N/A\<close> yields NaN; and for every text
  that holds \<open>$\<close> at most once and \<open>,\<close> at most once, the charge is what \<open>parseFloat\<close>
  reads from the text without these two characters.
\<close>

theorem apc_of_price:
  "(querySelector [classes [''list-price-without-waiver''], classes [''text-xl'']] document = None
      \<longrightarrow> apc_of document = Num NaN) \<and>
   (querySelector [classes [''list-price-without-waiver''], classes [''text-xl'']] document = Some e \<and>
    textContent e = ''$1,234.50''
      \<longrightarrow> apc_of document = Num (Finite 1234.5)) \<and>
   (querySelector [classes [''list-price-without-waiver''], classes [''text-xl'']] document = Some e \<and>
    textContent e = ''N/A''
      \<longrightarrow> apc_of document = Num NaN) \<and>
   (querySelector [classes [''list-price-without-waiver''], classes [''text-xl'']] document = Some e \<and>
    count_list (textContent e) CHR ''$'' \<le> 1 \<and> count_list (textContent e) CHR '','' \<le> 1
      \<longrightarrow> apc_of document =
          Num (parseFloat_str (filter (\<lambda>c. c \<noteq> CHR ''$'' \<and> c \<noteq> CHR '','') (textContent e))))"
proof (intro conjI impI)
  assume "querySelector [classes [''list-price-without-waiver''], classes [''text-xl'']] document = None"
  then show "apc_of document = Num NaN" by (rule apc_absent)
next
  assume "querySelector [classes [''list-price-without-waiver''], classes [''text-xl'']] document = Some e \<and>
    textContent e = ''$1,234.50''"
  then show "apc_of document = Num (Finite 1234.5)"
    using apc_present [of document e] parse_price by simp
next
  assume "querySelector [classes [''list-price-without-waiver''], classes [''text-xl'']] document = Some e \<and>
    textContent e = ''N/A''"
  then show "apc_of document = Num NaN"
    using apc_present [of document e] parse_not_available by simp
next
  assume "querySelector [classes [''list-price-without-waiver''], classes [''text-xl'']] document = Some e \<and>
    count_list (textContent e) CHR ''$'' \<le> 1 \<and> count_list (textContent e) CHR '','' \<le> 1"
  then show "apc_of document =
          Num (parseFloat_str (filter (\<lambda>c. c \<noteq> CHR ''$'' \<and> c \<noteq> CHR '','') (textContent e)))"
    using apc_present [of document e] strip_price [of "textContent e"] by simp
qed

theorem apc_of_price_witness:
  "apc_of (Element ''html'' [] [Element ''head'' [] [], Element ''body'' [] []]) = Num NaN \<and>
   apc_of (Element ''html'' []
      [Element ''body'' []
         [Element ''div'' [''list-price-without-waiver'']
            [Element ''span'' [''text-xl''] [Text ''$1,234.50'']]]]) = Num (Finite 1234.5) \<and>
   apc_of (Element ''html'' []
      [Element ''body'' []
         [Element ''div'' [''list-price-without-waiver'']
            [Element ''span'' [''text-xl''] [Text ''N/A'']]]]) = Num NaN \<and>
   apc_of (Element ''html'' []
      [Element ''body'' []
         [Element ''div'' [''list-price-without-waiver'']
            [Element ''span'' [''text-xl''] [Text ''$980'']]]]) = Num (Finite 980)"
proof -
  let ?sel = "[classes [''list-price-without-waiver''], classes [''text-xl'']]"
  let ?empty = "Element ''html'' [] [Element ''head'' [] [], Element ''body'' [] []]"
  let ?e1 = "Element ''span'' [''text-xl''] [Text ''$1,234.50'']"
  let ?d1 = "Element ''html'' [] [Element ''body'' [] [Element ''div'' [''list-price-without-waiver''] [?e1]]]"
  let ?e2 = "Element ''span'' [''text-xl''] [Text ''N/A'']"
  let ?d2 = "Element ''html'' [] [Element ''body'' [] [Element ''div'' [''list-price-without-waiver''] [?e2]]]"
  let ?e3 = "Element ''span'' [''text-xl''] [Text ''$980'']"
  let ?d3 = "Element ''html'' [] [Element ''body'' [] [Element ''div'' [''list-price-without-waiver''] [?e3]]]"
  have h0: "querySelector ?sel ?empty = None" by (simp add: dom_defs)
  have h1: "querySelector ?sel ?d1 = Some ?e1 \<and> textContent ?e1 = ''$1,234.50''"
    by (simp add: dom_defs)
  have h2: "querySelector ?sel ?d2 = Some ?e2 \<and> textContent ?e2 = ''N/A''"
    by (simp add: dom_defs)
  have h3: "querySelector ?sel ?d3 = Some ?e3 \<and>
    count_list (textContent ?e3) CHR ''$'' \<le> 1 \<and> count_list (textContent ?e3) CHR '','' \<le> 1"
    by (simp add: dom_defs)
  note a = apc_of_price [where document = ?empty, THEN conjunct1, THEN mp, OF h0]
  note b = apc_of_price [where document = ?d1 and e = ?e1,
      THEN conjunct2, THEN conjunct1, THEN mp, OF h1]
  note c = apc_of_price [where document = ?d2 and e = ?e2,
      THEN conjunct2, THEN conjunct2, THEN conjunct1, THEN mp, OF h2]
  note d = apc_of_price [where document = ?d3 and e = ?e3,
      THEN conjunct2, THEN conjunct2, THEN conjunct2, THEN mp, OF h3]
  have f: "filter (\<lambda>c. c \<noteq> CHR ''$'' \<and> c \<noteq> CHR '','') (textContent ?e3) = ''980''" by simp
  have g: "parseFloat_str ''980'' = Finite 980" by (simp add: parse_defs)
  from a b c d [unfolded f g] show ?thesis by (intro conjI)
qed

text \<open>
  Claim C7 as stated fails: neither the unparseable text \<open>N/A\<close> nor a page without
  the price element yields \<open>null\<close>.
\<close>

theorem apc_of_unparseable_counterexample:
  "apc_of (Element ''html'' []
      [Element ''body'' []
         [Element ''div'' [''list-price-without-waiver'']
            [Element ''span'' [''text-xl''] [Text ''N/A'']]]]) \<noteq> Null \<and>
   apc_of (Element ''html'' [] [Element ''head'' [] [], Element ''body'' [] []]) \<noteq> Null"
  by (simp add: apc_of_def)

text \<open>
  Claim C9. When no row section has a heading (its first \<open>h3\<close>) whose trimmed text is
  \<open>Subject areas\<close>, the subject areas are the string \<open>N/A\<close>, not \<open>null\<close>. When the first
  row section with such a heading has a value cell, the subject areas are the
  trimmed text of that cell.
\<close>

theorem subject_areas_of_heading:
  "((\<forall>r\<in>set (querySelectorAll [classes [''row'', ''gutters'', ''hor-line'', ''u-padding-l-ver'']]
                  document).
        \<forall>h. element_querySelector (tag ''h3'') r = Some h \<longrightarrow>
            trim (textContent h) \<noteq> ''Subject areas'')
      \<longrightarrow> subject_areas_of document = Str ''N/A'') \<and>
   (querySelectorAll [classes [''row'', ''gutters'', ''hor-line'', ''u-padding-l-ver'']] document
      = before @ r # after \<and>
    (\<forall>b\<in>set before. \<forall>h. element_querySelector (tag ''h3'') b = Some h \<longrightarrow>
        trim (textContent h) \<noteq> ''Subject areas'') \<and>
    element_querySelector (tag ''h3'') r = Some heading \<and>
    trim (textContent heading) = ''Subject areas'' \<and>
    element_querySelector (classes [''col-lg-17'', ''col-xs-24'', ''text-s'']) r = Some cell
      \<longrightarrow> subject_areas_of document = Str (trim (textContent cell)))"
  using subject_absent [of document] subject_found [of document before r after heading cell]
  by blast

theorem subject_areas_of_heading_witness:
  "subject_areas_of
     (Element ''html'' []
        [Element ''body'' []
           [Element ''div'' [''row'', ''gutters'', ''hor-line'', ''u-padding-l-ver'']
              [Element ''h3'' [] [Text ''ISSN''],
               Element ''div'' [''col-lg-17'', ''col-xs-24'', ''text-s''] [Text ''1234-5678'']]]])
     = Str ''N/A'' \<and>
   subject_areas_of
     (Element ''html'' []
        [Element ''body'' []
           [Element ''div'' [''row'', ''gutters'', ''hor-line'', ''u-padding-l-ver'']
              [Element ''h3'' [] [Text ''ISSN''],
               Element ''div'' [''col-lg-17'', ''col-xs-24'', ''text-s''] [Text ''1234-5678'']],
            Element ''div'' [''row'', ''gutters'', ''hor-line'', ''u-padding-l-ver'']
              [Element ''h3'' [] [Text '' Subject areas ''],
               Element ''div'' [''col-lg-17'', ''col-xs-24'', ''text-s'']
                 [Text '' Chemistry, Physics '']]]])
     = Str ''Chemistry, Physics''"
proof -
  let ?sel = "[classes [''row'', ''gutters'', ''hor-line'', ''u-padding-l-ver'']]"
  let ?r1 = "Element ''div'' [''row'', ''gutters'', ''hor-line'', ''u-padding-l-ver'']
              [Element ''h3'' [] [Text ''ISSN''],
               Element ''div'' [''col-lg-17'', ''col-xs-24'', ''text-s''] [Text ''1234-5678'']]"
  let ?h = "Element ''h3'' [] [Text '' Subject areas '']"
  let ?cell = "Element ''div'' [''col-lg-17'', ''col-xs-24'', ''text-s''] [Text '' Chemistry, Physics '']"
  let ?r2 = "Element ''div'' [''row'', ''gutters'', ''hor-line'', ''u-padding-l-ver''] [?h, ?cell]"
  let ?d1 = "Element ''html'' [] [Element ''body'' [] [?r1]]"
  let ?d2 = "Element ''html'' [] [Element ''body'' [] [?r1, ?r2]]"
  have h1: "\<forall>r\<in>set (querySelectorAll ?sel ?d1).
        \<forall>h. element_querySelector (tag ''h3'') r = Some h \<longrightarrow>
            trim (textContent h) \<noteq> ''Subject areas''"
    by (auto simp: dom_defs trim_def is_space_def)
  have h2: "querySelectorAll ?sel ?d2 = [?r1] @ ?r2 # [] \<and>
    (\<forall>b\<in>set [?r1]. \<forall>h. element_querySelector (tag ''h3'') b = Some h \<longrightarrow>
        trim (textContent h) \<noteq> ''Subject areas'') \<and>
    element_querySelector (tag ''h3'') ?r2 = Some ?h \<and>
    trim (textContent ?h) = ''Subject areas'' \<and>
    element_querySelector (classes [''col-lg-17'', ''col-xs-24'', ''text-s'']) ?r2 = Some ?cell"
    by (auto simp: dom_defs trim_def is_space_def)
  note a = subject_areas_of_heading [where document = ?d1, THEN conjunct1, THEN mp, OF h1]
  note b = subject_areas_of_heading
    [where document = ?d2 and before = "[?r1]" and r = ?r2 and after = "[]"
       and heading = ?h and cell = ?cell, THEN conjunct2, THEN mp, OF h2]
  have t: "trim (textContent ?cell) = ''Chemistry, Physics''"
    by (simp add: trim_def is_space_def)
  from a b [unfolded t] show ?thesis by (intro conjI)
qed

subsection \<open>Assembling a record from failed pages\<close>













end
